theory Spec2Isabelle
  imports Main "HOL-Library.AList" "HOL-Library.Monad_Syntax"
begin

section \<open>Python strings\<close>

text \<open>
  A Python \<open>str\<close> is modelled as a \<^typ>\<open>string\<close>, one \<^typ>\<open>char\<close> per character.
  The 7-bit characters are ASCII.  A character with code 128 or more is read in code
  page 1250, which has the Romanian letters of the program's texts (\<open>a-breve\<close> 0xE3,
  \<open>i-circumflex\<close> 0xEE), the bullet (0x95) and the no-break space (0xA0).  In that page
  the no-break space is the one non-ASCII character of \<open>str.isspace\<close> and of the
  class \<open>\s\<close>, there is no non-ASCII digit, and \<open>[a-z]\<close> under \<open>re.IGNORECASE\<close> has
  ASCII letters only.  \<open>upper()\<close> and \<open>lower()\<close> are modelled on the ASCII letters and
  leave every other character unchanged: the program only compares their results with
  ASCII texts and takes positions in them, and no character of the page is mapped to
  or from an ASCII one.  The sharp s (0xDF), whose \<open>upper()\<close> is two characters long,
  and the characters of Unicode that the page does not have are outside the model.
\<close>

definition lowers :: string where
  "lowers = ''abcdefghijklmnopqrstuvwxyz''"

definition uppers :: string where
  "uppers = ''ABCDEFGHIJKLMNOPQRSTUVWXYZ''"

definition upper_char :: "char \<Rightarrow> char" where
  "upper_char c = (case map_of (zip lowers uppers) c of Some u \<Rightarrow> u | None \<Rightarrow> c)"

definition lower_char :: "char \<Rightarrow> char" where
  "lower_char c = (case map_of (zip uppers lowers) c of Some l \<Rightarrow> l | None \<Rightarrow> c)"

text \<open>\<open>s.upper()\<close> and \<open>s.lower()\<close>.\<close>

definition upper :: "string \<Rightarrow> string" where
  "upper s = map upper_char s"

definition lower :: "string \<Rightarrow> string" where
  "lower s = map lower_char s"

text \<open>
  \<open>str.isspace\<close>, which is also the class \<open>\s\<close> and what \<open>strip\<close> removes: the blank,
  the control characters 0x09 to 0x0D and 0x1C to 0x1F, and the no-break space.
\<close>

definition is_space :: "char \<Rightarrow> bool" where
  "is_space c = (c \<in> set [CHR '' '', CHR 0x09, CHR 0x0A, CHR 0x0B, CHR 0x0C, CHR 0x0D,
                            CHR 0x1C, CHR 0x1D, CHR 0x1E, CHR 0x1F, CHR 0xA0])"

text \<open>The class \<open>\d\<close>.\<close>

definition is_digit :: "char \<Rightarrow> bool" where
  "is_digit c = (c \<in> set ''0123456789'')"

text \<open>The class \<open>[a-z]\<close> under \<open>re.IGNORECASE\<close>.\<close>

definition is_alpha :: "char \<Rightarrow> bool" where
  "is_alpha c = (c \<in> set lowers \<or> c \<in> set uppers)"

text \<open>
  The letters of code page 1250 outside ASCII, by their codes (the characters there
  that \<open>str.isalnum\<close> accepts).
\<close>

definition cp1250_letter :: "nat \<Rightarrow> bool" where
  "cp1250_letter n =
     (n = 0x8A \<or> (0x8C \<le> n \<and> n \<le> 0x8F) \<or> n = 0x9A \<or> (0x9C \<le> n \<and> n \<le> 0x9F)
      \<or> n = 0xA1 \<or> n = 0xA3 \<or> n = 0xA5 \<or> n = 0xAA \<or> n = 0xAF \<or> n = 0xB3 \<or> n = 0xB5
      \<or> n = 0xB9 \<or> n = 0xBA \<or> n = 0xBC \<or> (0xBE \<le> n \<and> n \<le> 0xD6)
      \<or> (0xD8 \<le> n \<and> n \<le> 0xF6) \<or> (0xF8 \<le> n \<and> n \<le> 0xFE))"

text \<open>The class \<open>\w\<close>.\<close>

definition is_word :: "char \<Rightarrow> bool" where
  "is_word c = (is_alpha c \<or> is_digit c \<or> c = CHR ''_''
                \<or> ((128::nat) \<le> of_char c \<and> cp1250_letter (of_char c)))"

text \<open>\<open>s.startswith(p)\<close>.\<close>

fun startswith :: "string \<Rightarrow> string \<Rightarrow> bool" where
  "startswith s [] = True"
| "startswith [] (p # ps) = False"
| "startswith (c # cs) (p # ps) = (c = p \<and> startswith cs ps)"

text \<open>\<open>p in s\<close> for two strings: \<open>p\<close> occurs in \<open>s\<close> as a contiguous piece.\<close>

fun py_in :: "string \<Rightarrow> string \<Rightarrow> bool" where
  "py_in p [] = (p = [])"
| "py_in p (c # cs) = (startswith (c # cs) p \<or> py_in p cs)"

text \<open>\<open>s.find(p)\<close>: the least index at which \<open>p\<close> occurs (\<open>s.index(p)\<close> where it does).\<close>

fun find_sub :: "string \<Rightarrow> string \<Rightarrow> nat option" where
  "find_sub [] p = (if p = [] then Some 0 else None)"
| "find_sub (c # cs) p =
     (if startswith (c # cs) p then Some 0 else map_option Suc (find_sub cs p))"

text \<open>\<open>s.lstrip()\<close>, \<open>s.rstrip()\<close>, \<open>s.strip()\<close> and \<open>s.rstrip(';')\<close>.\<close>

definition lstrip :: "string \<Rightarrow> string" where
  "lstrip s = dropWhile is_space s"

definition rstrip :: "string \<Rightarrow> string" where
  "rstrip s = rev (dropWhile is_space (rev s))"

definition strip :: "string \<Rightarrow> string" where
  "strip s = rstrip (lstrip s)"

definition rstrip_semicolons :: "string \<Rightarrow> string" where
  "rstrip_semicolons s = rev (dropWhile (\<lambda>c. c = CHR '';'') (rev s))"

text \<open>\<open>sep.join(xs)\<close>.\<close>

fun join :: "string \<Rightarrow> string list \<Rightarrow> string" where
  "join sep [] = []"
| "join sep [x] = x"
| "join sep (x # y # ys) = x @ sep @ join sep (y # ys)"

text \<open>\<open>str(n)\<close> for a natural number and for an integer.\<close>

definition digit_char :: "nat \<Rightarrow> char" where
  "digit_char n = ''0123456789'' ! n"

fun str_nat :: "nat \<Rightarrow> string" where
  "str_nat n =
     (if n < 10 then [digit_char n] else str_nat (n div 10) @ [digit_char (n mod 10)])"

declare str_nat.simps [simp del]

definition str_int :: "int \<Rightarrow> string" where
  "str_int i = (if i < 0 then CHR ''-'' # str_nat (nat (- i)) else str_nat (nat i))"

text \<open>\<open>s.replace(a, b)\<close> for a non-empty \<open>a\<close>: every occurrence, leftmost first.\<close>

fun replace :: "string \<Rightarrow> string \<Rightarrow> string \<Rightarrow> string" where
  "replace a b [] = []"
| "replace a b (c # cs) =
     (if a \<noteq> [] \<and> startswith (c # cs) a
      then b @ replace a b (drop (length a) (c # cs))
      else c # replace a b cs)"

section \<open>Query results\<close>

text \<open>
  A cell of a result row.  \<open>VFloat\<close> carries the \<open>repr\<close> of the float and \<open>VObj\<close> stands
  for any other object the store's driver returns (a date, a decimal): it carries its
  \<open>str()\<close> and its truth value.
\<close>

datatype pyval =
    VNone
  | VBool bool
  | VInt int
  | VFloat string
  | VStr string
  | VObj string bool

text \<open>A row is a \<open>dict\<close> from column name to cell, in insertion order.\<close>

type_synonym row = "(string \<times> pyval) list"

text \<open>\<open>isinstance(v, (int, float))\<close>; a \<open>bool\<close> is an \<open>int\<close> in Python.\<close>

fun is_number :: "pyval \<Rightarrow> bool" where
  "is_number (VBool b) = True"
| "is_number (VInt i) = True"
| "is_number (VFloat r) = True"
| "is_number v = False"

text \<open>The truth value of a cell, as \<open>if v:\<close> reads it.\<close>

fun truthy :: "pyval \<Rightarrow> bool" where
  "truthy VNone = False"
| "truthy (VBool b) = b"
| "truthy (VInt i) = (i \<noteq> 0)"
| "truthy (VFloat r) = (r \<notin> set [''0.0'', ''-0.0''])"
| "truthy (VStr s) = (s \<noteq> [])"
| "truthy (VObj s b) = b"

text \<open>\<open>str(v)\<close>.\<close>

fun py_str :: "pyval \<Rightarrow> string" where
  "py_str VNone = ''None''"
| "py_str (VBool b) = (if b then ''True'' else ''False'')"
| "py_str (VInt i) = str_int i"
| "py_str (VFloat r) = r"
| "py_str (VStr s) = s"
| "py_str (VObj s b) = s"

text \<open>\<open>r.get(k)\<close>, with \<open>None\<close> for a missing key.\<close>

definition row_get :: "row \<Rightarrow> string \<Rightarrow> pyval" where
  "row_get r k = (case map_of r k of Some v \<Rightarrow> v | None \<Rightarrow> VNone)"

section \<open>The visualization classifier\<close>

definition detail_cols :: "string list" where
  "detail_cols = [''nr_reclamatie'', ''observatii'', ''observatie'', ''detalii'',
     ''descriere'', ''adresa'', ''telefon'', ''email'', ''client'', ''nume_client'',
     ''id'', ''nr'', ''numar'', ''cod'']"

definition time_cols :: "string list" where
  "time_cols = [''luna'', ''month'', ''an'', ''year'', ''data'', ''zi'', ''saptamana'',
     ''trimestru'']"

definition numeric_cols :: "string list" where
  "numeric_cols = [''numar'', ''numar_reclamatii'', ''total'', ''count'', ''valoare'',
     ''valoare_totala'', ''suma'', ''medie'', ''procent'']"

text \<open>
  The four early returns of \<open>_guess_visualization\<close> that keep identifier and detail
  columns away from a chart (source lines 560 to 575), over \<open>cols_lower\<close>, the
  lower-cased column names.
\<close>

definition detail_excluded :: "string list \<Rightarrow> bool" where
  "detail_excluded columns =
     (let cols_lower = map lower columns;
          non_date_cols = filter (\<lambda>c. c \<notin> set [''data_reclamatie'', ''data'']) cols_lower
      in ''observatii'' \<in> set cols_lower \<or> ''observatie'' \<in> set cols_lower
         \<or> list_all (\<lambda>c. c \<in> set (detail_cols @ [''data_reclamatie'', ''data'', ''magazin'']))
              cols_lower
         \<or> (non_date_cols \<noteq> [] \<and> list_all (\<lambda>c. c \<in> set detail_cols) non_date_cols)
         \<or> (length columns = 1 \<and> list_ex (\<lambda>c. c \<in> set detail_cols) cols_lower))"

definition has_time :: "string list \<Rightarrow> bool" where
  "has_time columns = list_ex (\<lambda>col. lower col \<in> set time_cols) columns"

definition has_numeric :: "string list \<Rightarrow> bool" where
  "has_numeric columns = list_ex (\<lambda>col. lower col \<in> set numeric_cols) columns"

text \<open>
  The test of source lines 587 to 593: no column has a numeric name, there is a second
  column, and the first row's value in it is not a number.
\<close>

definition no_numeric_data :: "row list \<Rightarrow> string list \<Rightarrow> bool" where
  "no_numeric_data results columns =
     (\<not> has_numeric columns \<and> 2 \<le> length columns
      \<and> (case results of [] \<Rightarrow> False
          | r0 # rest \<Rightarrow> \<not> is_number (row_get r0 (columns ! 1))))"

text \<open>\<open>_guess_visualization(results, columns)\<close>.\<close>

definition guess_visualization :: "row list \<Rightarrow> string list \<Rightarrow> string" where
  "guess_visualization results columns =
     (if results = [] then ''none''
      else if length results = 1 \<and> length columns \<le> 2 then ''none''
      else if detail_excluded columns then ''none''
      else if no_numeric_data results columns
        then (if length results \<le> 15 then ''table'' else ''none'')
      else if has_time columns \<and> 2 < length results then ''bar_chart''
      else if length results \<le> 8 \<and> length columns = 2
        then (if length results \<le> 6 then ''pie_chart'' else ''bar_chart'')
      else if length results \<le> 15 then ''bar_chart''
      else ''bar_chart'')"

section \<open>The response formatter\<close>

text \<open>
  A value of the kind \<open>json.loads\<close> returns: \<open>None\<close>, a \<open>bool\<close>, an \<open>int\<close>, a \<open>float\<close>
  (by its \<open>repr\<close>), a \<open>str\<close>, a \<open>list\<close> or a \<open>dict\<close>.
\<close>

datatype jval =
    JNone
  | JBool bool
  | JInt int
  | JFloat string
  | JStr string
  | JList "jval list"
  | JDict "(string \<times> jval) list"

text \<open>The truth value of such a value, as \<open>if not parsed:\<close> reads it.\<close>

fun jtruthy :: "jval \<Rightarrow> bool" where
  "jtruthy JNone = False"
| "jtruthy (JBool b) = b"
| "jtruthy (JInt i) = (i \<noteq> 0)"
| "jtruthy (JFloat r) = (r \<notin> set [''0.0'', ''-0.0''])"
| "jtruthy (JStr s) = (s \<noteq> [])"
| "jtruthy (JList xs) = (xs \<noteq> [])"
| "jtruthy (JDict d) = (d \<noteq> [])"

text \<open>
  The response envelope is the \<open>dict\<close> that \<open>format_response\<close> and \<open>chat\<close> return.  Under
  a key it holds a value of the model's reply or a string or number the code wrote
  (\<open>Val\<close>), the result rows (\<open>Rows\<close>) or the column names (\<open>Names\<close>).  The empty list the
  code stores under \<open>data\<close> is \<open>Rows []\<close> and the one under \<open>columns\<close> is \<open>Names []\<close>.
\<close>

datatype pyobj =
    Val jval
  | Rows "row list"
  | Names "string list"

type_synonym envelope = "(string \<times> pyobj) list"

text \<open>An exception, by its class and its \<open>str()\<close>.\<close>

datatype py_exception = PyExc string string

fun exc_str :: "py_exception \<Rightarrow> string" where
  "exc_str (PyExc cls msg) = msg"

text \<open>
  What a completion request comes to: it raises, or it returns a response whose
  \<open>text\<close> is a string or \<open>None\<close>.
\<close>

datatype completion =
    Failed py_exception
  | Reply "string option"

text \<open>
  The library calls of the parse stage of \<open>format_response\<close>, on the text of the model's
  reply: \<open>json.loads\<close> (\<open>None\<close> for a \<open>JSONDecodeError\<close>), the three \<open>re.sub\<close> calls
  that remove code fences (source lines 429 to 431), the search for an embedded JSON
  object (line 441), the search for the text field (line 450, its group 1) and the
  last-resort cleaning (lines 458 to 460).  The properties below hold whatever these
  return, so they are parameters.
\<close>

record fmt_lib =
  json_loads :: "string \<Rightarrow> jval option"
  strip_fences :: "string \<Rightarrow> string"
  search_json_object :: "string \<Rightarrow> string option"
  search_text_field :: "string \<Rightarrow> string option"
  last_resort_text :: "string \<Rightarrow> string"

text \<open>
  The characters of the source's literals that are not ASCII, in code page 1250.
\<close>

definition bullet :: char where
  "bullet = CHR 0x95"

definition a_breve :: char where
  "a_breve = CHR 0xE3"

definition i_circ :: char where
  "i_circ = CHR 0xEE"

definition newline :: char where
  "newline = CHR 0x0A"

text \<open>The dictionary a fallback of the parse stage builds (source lines 452 to 470).\<close>

definition fallback_dict :: "row list \<Rightarrow> string list \<Rightarrow> string \<Rightarrow> jval" where
  "fallback_dict results columns t =
     JDict [(''text'', JStr t),
            (''visualization'', JStr (guess_visualization results columns))]"

text \<open>The parse stage, source lines 434 to 470.\<close>

definition parse_reply :: "fmt_lib \<Rightarrow> row list \<Rightarrow> string list \<Rightarrow> string \<Rightarrow> jval" where
  "parse_reply lib results columns response_text =
     (case json_loads lib response_text of
        Some parsed \<Rightarrow> parsed
      | None \<Rightarrow>
          (let parsed =
                 (case search_json_object lib response_text of
                    None \<Rightarrow> JNone
                  | Some m \<Rightarrow> (case json_loads lib m of None \<Rightarrow> JNone | Some j \<Rightarrow> j))
           in if jtruthy parsed then parsed
              else (case search_text_field lib response_text of
                      Some t \<Rightarrow> fallback_dict results columns t
                    | None \<Rightarrow>
                        (let clean_text = last_resort_text lib response_text
                         in if clean_text \<noteq> [] then fallback_dict results columns clean_text
                            else fallback_dict results columns
                                   (''Am g'' @ [a_breve] @ ''sit '' @ str_nat (length results)
                                    @ '' rezultate.'')))))"

text \<open>
  What the code after the parse stage raises when \<open>parsed\<close> is not a \<open>dict\<close>: the test
  \<open>"text" in parsed\<close>, the subscript \<open>parsed["text"]\<close> or the call \<open>parsed.get\<close>.
\<close>

fun not_a_dict :: "jval \<Rightarrow> py_exception" where
  "not_a_dict (JList xs) =
     (if JStr ''text'' \<in> set xs
      then PyExc ''TypeError'' ''list indices must be integers or slices, not str''
      else PyExc ''AttributeError'' (CHR 0x27 # ''list'' @ CHR 0x27 # '' object has no attribute ''
             @ CHR 0x27 # ''get'' @ [CHR 0x27]))"
| "not_a_dict (JStr s) =
     (if py_in ''text'' s
      then PyExc ''TypeError'' ''string indices must be integers''
      else PyExc ''AttributeError'' (CHR 0x27 # ''str'' @ CHR 0x27 # '' object has no attribute ''
             @ CHR 0x27 # ''get'' @ [CHR 0x27]))"
| "not_a_dict j = PyExc ''TypeError'' ''argument is not iterable''"

text \<open>\<open>t.replace('\\"', '"')\<close>: a backslash before a double quote is dropped.\<close>

definition unescape_quotes :: "string \<Rightarrow> string" where
  "unescape_quotes t = replace [CHR 0x5C, CHR 0x22] [CHR 0x22] t"

text \<open>
  Source lines 473 and 474.  A text field that is not a string has no \<open>replace\<close>.  (The
  messages of the interpreter's own exceptions are abbreviated here and below.)
\<close>

definition clean_text_field :: "envelope \<Rightarrow> py_exception + envelope" where
  "clean_text_field parsed =
     (case map_of parsed ''text'' of
        None \<Rightarrow> Inr parsed
      | Some (Val (JStr t)) \<Rightarrow> Inr (AList.update ''text'' (Val (JStr (unescape_quotes t))) parsed)
      | Some other \<Rightarrow> Inl (PyExc ''AttributeError'' ''object has no attribute replace''))"

text \<open>Source lines 477 and 478: a table of more than 15 rows is classified again.\<close>

definition override_table :: "row list \<Rightarrow> string list \<Rightarrow> envelope \<Rightarrow> envelope" where
  "override_table results columns parsed =
     (if map_of parsed ''visualization'' = Some (Val (JStr ''table'')) \<and> 15 < length results
      then AList.update ''visualization'' (Val (JStr (guess_visualization results columns))) parsed
      else parsed)"

text \<open>Source lines 481 to 484: some column name, lower-cased, is in the detail set.\<close>

definition is_detail :: "string list \<Rightarrow> bool" where
  "is_detail columns = list_ex (\<lambda>col. lower col \<in> set detail_cols) columns"

text \<open>Source lines 486 and 487.\<close>

definition force_detail :: "string list \<Rightarrow> envelope \<Rightarrow> envelope" where
  "force_detail columns parsed =
     (if is_detail columns
         \<and> map_of parsed ''visualization'' \<noteq> Some (Val (JStr ''none''))
         \<and> map_of parsed ''visualization'' \<noteq> Some (Val (JStr ''table''))
      then AList.update ''visualization'' (Val (JStr ''none'')) parsed
      else parsed)"

text \<open>
  The visualization once both overrides have run, for a reply that parsed to the
  dictionary \<open>d\<close>.
\<close>

definition final_visualization :: "row list \<Rightarrow> string list \<Rightarrow> (string \<times> jval) list \<Rightarrow> pyobj option" where
  "final_visualization results columns d =
     map_of (force_detail columns
               (override_table results columns (map (\<lambda>(k, v). (k, Val v)) d)))
            ''visualization''"

text \<open>\<open>str(list(r.values())[0])\<close>, the primary value of a non-empty row.\<close>

fun primary_value :: "row \<Rightarrow> string" where
  "primary_value [] = []"
| "primary_value ((k, v) # kvs) = py_str v"

text \<open>The excerpt of a free-text cell, source lines 511 to 515.\<close>

definition excerpt :: "pyval \<Rightarrow> string" where
  "excerpt v =
     (let obs_text = strip (replace [newline] '' '' (py_str v));
          obs_text = (if 150 < length obs_text then take 147 obs_text @ ''...'' else obs_text)
      in if obs_text = [] then ''(detalii incomplete)'' else obs_text)"

text \<open>One line of the rebuilt list, source lines 505 to 516.\<close>

definition detail_line :: "string option \<Rightarrow> string option \<Rightarrow> row \<Rightarrow> string" where
  "detail_line mag_key obs_key r =
     bullet # '' '' @ primary_value r
     @ (case mag_key of
          None \<Rightarrow> []
        | Some k \<Rightarrow> if truthy (row_get r k) then '' ('' @ py_str (row_get r k) @ '')'' else [])
     @ (case obs_key of
          None \<Rightarrow> []
        | Some k \<Rightarrow> if truthy (row_get r k) then '' - '' @ excerpt (row_get r k) else [])"

text \<open>The first key of the first row that contains the given word, lines 499 to 501.\<close>

definition find_key :: "string \<Rightarrow> row list \<Rightarrow> string option" where
  "find_key w results =
     (case results of [] \<Rightarrow> None
      | r0 # rest \<Rightarrow> List.find (\<lambda>k. py_in w (lower k)) (map fst r0))"

text \<open>The lines of the rebuilt list, one per row (source lines 503 to 517).\<close>

definition lines_of :: "row list \<Rightarrow> string list" where
  "lines_of results =
     map (detail_line (find_key ''magazin'' results) (find_key ''observ'' results)) results"

text \<open>What line 521 appends to the text: a heading and the lines.\<close>

definition detail_list :: "row list \<Rightarrow> string" where
  "detail_list results =
     [newline, newline] @ ''**Lista detaliat'' @ [a_breve] @ '' ('' @ str_nat (length results)
     @ '' '' @ [i_circ] @ ''nregistr'' @ [a_breve] @ ''ri):**'' @ [newline]
     @ join [newline] (lines_of results)"

text \<open>\<open>parsed.get("text", "")\<close> once the text field is known to be a string.\<close>

definition text_of :: "envelope \<Rightarrow> string" where
  "text_of parsed = (case map_of parsed ''text'' of Some (Val (JStr t)) \<Rightarrow> t | other \<Rightarrow> [])"

text \<open>The values of line 493 that line 494 does not find in the text.\<close>

definition missing_values :: "row list \<Rightarrow> string \<Rightarrow> string list" where
  "missing_values results t =
     filter (\<lambda>v. \<not> py_in v t) (map primary_value (filter (\<lambda>r. r \<noteq> []) results))"

text \<open>
  Source lines 490 to 524.  Building a line raises \<open>IndexError\<close> on an empty row, and
  line 521 raises \<open>KeyError\<close> when the reply has no text field.
\<close>

definition complete_detail ::
  "row list \<Rightarrow> string list \<Rightarrow> envelope \<Rightarrow> py_exception + envelope" where
  "complete_detail results columns parsed =
     (if is_detail columns \<and> map_of parsed ''visualization'' = Some (Val (JStr ''none''))
         \<and> length results \<le> 60
      then (let clear = (\<lambda>p. AList.update ''columns'' (Names [])
                                (AList.update ''data'' (Rows []) p))
            in if missing_values results (text_of parsed) \<noteq> []
               then (if list_ex (\<lambda>r. r = []) results
                     then Inl (PyExc ''IndexError'' ''list index out of range'')
                     else (case map_of parsed ''text'' of
                             None \<Rightarrow> Inl (PyExc ''KeyError'' (CHR 0x27 # ''text'' @ [CHR 0x27]))
                           | Some (Val (JStr t)) \<Rightarrow>
                               Inr (clear (AList.update ''text''
                                      (Val (JStr (t @ detail_list results))) parsed))
                           | Some other \<Rightarrow>
                               Inl (PyExc ''TypeError'' ''unsupported operand type(s) for +='')))
               else Inr (clear parsed))
      else Inr parsed)"

text \<open>Source lines 527 to 532.\<close>

definition attach :: "string \<Rightarrow> row list \<Rightarrow> string list \<Rightarrow> envelope \<Rightarrow> envelope" where
  "attach sql results columns parsed =
     (let p1 = (if map_of parsed ''data'' = None
                then AList.update ''data'' (Rows results) parsed else parsed);
          p2 = (if map_of p1 ''columns'' = None
                then AList.update ''columns'' (Names columns) p1 else p1)
      in AList.update ''row_count'' (Val (JInt (int (length results))))
           (AList.update ''sql'' (Val (JStr sql)) p2))"

text \<open>Source lines 472 to 534, on the outcome of the parse stage.\<close>

definition enforce :: "string \<Rightarrow> row list \<Rightarrow> string list \<Rightarrow> jval \<Rightarrow> py_exception + envelope" where
  "enforce sql results columns parsed =
     (case parsed of
        JDict d \<Rightarrow>
          (case clean_text_field (map (\<lambda>(k, v). (k, Val v)) d) of
             Inl e \<Rightarrow> Inl e
           | Inr p \<Rightarrow>
               (case complete_detail results columns
                       (force_detail columns (override_table results columns p)) of
                  Inl e \<Rightarrow> Inl e
                | Inr p' \<Rightarrow> Inr (attach sql results columns p')))
      | other \<Rightarrow> Inl (not_a_dict other))"

text \<open>What \<open>response.text.strip()\<close> raises when the text is \<open>None\<close>.\<close>

definition none_has_no_strip :: py_exception where
  "none_has_no_strip =
     PyExc ''AttributeError'' (CHR 0x27 # ''NoneType'' @ CHR 0x27
       # '' object has no attribute '' @ CHR 0x27 # ''strip'' @ [CHR 0x27])"

text \<open>The body of the \<open>try\<close> block of \<open>format_response\<close>, given the completion.\<close>

definition format_body ::
  "fmt_lib \<Rightarrow> completion \<Rightarrow> string \<Rightarrow> row list \<Rightarrow> string list \<Rightarrow> py_exception + envelope" where
  "format_body lib reply sql results columns =
     (case reply of
        Failed e \<Rightarrow> Inl e
      | Reply None \<Rightarrow> Inl none_has_no_strip
      | Reply (Some t) \<Rightarrow>
          enforce sql results columns
            (parse_reply lib results columns (strip (strip_fences lib (strip t)))))"

text \<open>The envelope of the final \<open>except\<close> clause, source lines 536 to 544.\<close>

definition fault_envelope :: "py_exception \<Rightarrow> string \<Rightarrow> row list \<Rightarrow> string list \<Rightarrow> envelope" where
  "fault_envelope e sql results columns =
     [(''text'', Val (JStr (''Eroare la formatarea r'' @ [a_breve] @ ''spunsului: '' @ exc_str e))),
      (''visualization'', Val (JStr ''none'')),
      (''data'', Rows results),
      (''columns'', Names columns),
      (''sql'', Val (JStr sql)),
      (''row_count'', Val (JInt (int (length results))))]"

text \<open>
  \<open>format_response\<close>, given what the completion request comes to.  The prompt is built
  from the question, the SQL, the rows, the columns and the total; the question and the
  total occur nowhere else.
\<close>

definition format_response ::
  "fmt_lib \<Rightarrow> completion \<Rightarrow> string \<Rightarrow> row list \<Rightarrow> string list \<Rightarrow> envelope" where
  "format_response lib reply sql results columns =
     (case format_body lib reply sql results columns of
        Inr parsed \<Rightarrow> parsed
      | Inl e \<Rightarrow> fault_envelope e sql results columns)"

text \<open>For the examples below: a library that reads every text as the given value.\<close>

definition stub_lib :: "jval \<Rightarrow> fmt_lib" where
  "stub_lib j =
     \<lparr>json_loads = (\<lambda>s. Some j), strip_fences = (\<lambda>s. s), search_json_object = (\<lambda>s. None),
      search_text_field = (\<lambda>s. None), last_resort_text = (\<lambda>s. s)\<rparr>"

section \<open>The SQL validator and corrector\<close>

text \<open>
  The patterns of \<open>generate_sql\<close> are regular expressions over character classes that
  do not overlap where they meet, so what the backtracking matcher of \<open>re\<close> finds at a
  position is fixed: each pattern is written below as the function that matches it at
  the head of a string and returns the text it matched and the rest.
\<close>

text \<open>A literal keyword under \<open>re.IGNORECASE\<close>; \<open>kw\<close> is in upper case.\<close>

definition take_kw :: "string \<Rightarrow> string \<Rightarrow> (string \<times> string) option" where
  "take_kw kw s =
     (if upper (take (length kw) s) = kw
      then Some (take (length kw) s, drop (length kw) s) else None)"

text \<open>One or more characters of a class, as many as there are (\<open>\s+\<close>, \<open>\d+\<close>).\<close>

definition take_class :: "(char \<Rightarrow> bool) \<Rightarrow> string \<Rightarrow> (string \<times> string) option" where
  "take_class P s =
     (case s of [] \<Rightarrow> None
      | c # cs \<Rightarrow> if P c then Some (takeWhile P s, dropWhile P s) else None)"

subsection \<open>Code fences\<close>

definition fence :: string where
  "fence = replicate 3 (CHR 0x60)"

definition endswith :: "string \<Rightarrow> string \<Rightarrow> bool" where
  "endswith s p = startswith (rev s) (rev p)"

text \<open>
  Source lines 223 to 226 (and 334 to 337): the substitutions \<open>^```sql\s*\<close>, \<open>^```\s*\<close>
  and \<open>\s*```$\<close> on a stripped text, and a last \<open>strip\<close>.  The text does not end in
  white space when the third one runs, so its \<open>$\<close> is the end of the text.
\<close>

definition strip_sql_fences :: "string \<Rightarrow> string" where
  "strip_sql_fences s =
     (let s1 = (if startswith s (fence @ ''sql'') then lstrip (drop 6 s) else s);
          s2 = (if startswith s1 fence then lstrip (drop 3 s1) else s1);
          s3 = (if endswith s2 fence then rstrip (take (length s2 - 3) s2) else s2)
      in strip s3)"

text \<open>\<open>sql.upper().startswith(('SELECT', 'WITH'))\<close>.\<close>

definition is_select_or_with :: "string \<Rightarrow> bool" where
  "is_select_or_with sql = (startswith (upper sql) ''SELECT'' \<or> startswith (upper sql) ''WITH'')"

subsection \<open>Column-name repair\<close>

definition VALID_COLUMNS :: "string list" where
  "VALID_COLUMNS = [''nr_reclamatie'', ''raion'', ''pm'', ''observatii'', ''nume_client'',
     ''nr_comanda'', ''id_comanda'', ''grup_vanzare'', ''furnizor'',
     ''echipa_livrare'', ''data_factura'', ''data_comanda'', ''data_reclamatie'',
     ''magazin'', ''articol_cod'', ''id_client'', ''articol_denumire'',
     ''modalitate_rezolvare'', ''motiv_reclamatie'', ''descriere'',
     ''mod_livrare'', ''furnizor_ext'', ''responsabil_comanda'',
     ''cantitate'', ''valoare'']"

definition name_map :: "(string \<times> string) list" where
  "name_map = [(''grupa_mediu_vanzare'', ''grup_vanzare''),
     (''grupa_mediu'', ''grup_vanzare''),
     (''mediu_vanzare'', ''grup_vanzare''),
     (''grup_mediu'', ''grup_vanzare''),
     (''data_reclam'', ''data_reclamatie''),
     (''data_rec'', ''data_reclamatie''),
     (''nr_reclam'', ''nr_reclamatie''),
     (''motiv_reclam'', ''motiv_reclamatie''),
     (''articol_den'', ''articol_denumire''),
     (''mod_rezolvare'', ''modalitate_rezolvare''),
     (''responsabil'', ''responsabil_comanda''),
     (''echipa'', ''echipa_livrare'')]"

text \<open>
  \<open>fix_column_name\<close>, source lines 233 to 258.  \<open>VALID_COLUMNS\<close> is a \<open>set\<close> in the source
  and the loop of line 238 runs through it in an order the source does not fix:
  \<open>order\<close> is that order.
\<close>

definition fix_column_name :: "string list \<Rightarrow> string \<Rightarrow> string" where
  "fix_column_name order word =
     (if lower word \<in> set VALID_COLUMNS then word
      else (case List.find (\<lambda>valid. startswith valid (lower word) \<and> 4 \<le> length word) order of
              Some valid \<Rightarrow> valid
            | None \<Rightarrow> (case map_of name_map (lower word) of
                         Some fixed \<Rightarrow> fixed
                       | None \<Rightarrow> word)))"

text \<open>
  A whole run of word characters matches \<open>\b[a-z][a-z_]+[a-z]\b\<close> (case ignored) when
  it has at least three characters, all letters or underscores, the first and the last
  a letter.  No shorter piece of a run matches: \<open>\b\<close> holds only at its two ends.
\<close>

definition column_like :: "string \<Rightarrow> bool" where
  "column_like w =
     (3 \<le> length w \<and> is_alpha (hd w) \<and> is_alpha (last w)
      \<and> list_all (\<lambda>c. is_alpha c \<or> c = CHR ''_'') w)"

definition fix_word :: "string list \<Rightarrow> string \<Rightarrow> string" where
  "fix_word order w = (if column_like w then fix_column_name order w else w)"

text \<open>Source line 261: \<open>re.sub\<close> of that pattern by \<open>fix_column_name\<close>.\<close>

function fix_columns :: "string list \<Rightarrow> string \<Rightarrow> string" where
  "fix_columns order [] = []"
| "fix_columns order (c # cs) =
     (if is_word c
      then fix_word order (takeWhile is_word (c # cs))
           @ fix_columns order (dropWhile is_word (c # cs))
      else c # fix_columns order cs)"
  by pat_completeness auto
termination
  by (relation "measure (\<lambda>(order, s). length s)")
    (auto simp: length_dropWhile_le less_Suc_eq_le)

subsection \<open>Keyword repair\<close>

text \<open>
  The pattern of source line 265,
  \<open>(ORDER\s+BY\s+[\w\(\)]+\s+)descriere(\s+LIMIT|\s*$)\<close>, at the head of a string: the
  result is the replacement \<open>\1DESC\2\<close> and the rest of the string.
\<close>

definition desc_tail :: "string \<Rightarrow> (string \<times> string) option" where
  "desc_tail s =
     (case take_class is_space s of
        Some (sp, s1) \<Rightarrow>
          (case take_kw ''LIMIT'' s1 of
             Some (lim, s2) \<Rightarrow> Some (sp @ lim, s2)
           | None \<Rightarrow> if s1 = [] then Some (sp, []) else None)
      | None \<Rightarrow> if s = [] then Some ([], []) else None)"

definition match_desc :: "string \<Rightarrow> (string \<times> string) option" where
  "match_desc s = do {
     (a, s1) \<leftarrow> take_kw ''ORDER'' s;
     (b, s2) \<leftarrow> take_class is_space s1;
     (c, s3) \<leftarrow> take_kw ''BY'' s2;
     (d, s4) \<leftarrow> take_class is_space s3;
     (e, s5) \<leftarrow> take_class (\<lambda>x. is_word x \<or> x = CHR ''('' \<or> x = CHR '')'') s4;
     (f, s6) \<leftarrow> take_class is_space s5;
     (g, s7) \<leftarrow> take_kw ''DESCRIERE'' s6;
     (h, s8) \<leftarrow> desc_tail s7;
     Some (a @ b @ c @ d @ e @ f @ ''DESC'' @ h, s8)
   }"

lemma take_kw_length:
  "take_kw kw s = Some (a, r) \<Longrightarrow> length r + length kw = length s"
proof -
  assume "take_kw kw s = Some (a, r)"
  then have u: "upper (take (length kw) s) = kw" and r: "r = drop (length kw) s"
    by (auto simp: take_kw_def split: if_splits)
  from u have "length (upper (take (length kw) s)) = length kw" by simp
  then have "length kw \<le> length s" by (simp add: upper_def)
  with r show ?thesis by simp
qed

lemma take_class_length:
  "take_class P s = Some (a, r) \<Longrightarrow> length r < length s"
  by (auto simp: take_class_def less_Suc_eq_le length_dropWhile_le split: list.splits if_splits)

lemma desc_tail_length:
  "desc_tail s = Some (h, r) \<Longrightarrow> length r \<le> length s"
  by (auto simp: desc_tail_def split: option.splits if_splits
      dest!: take_kw_length take_class_length)

lemma match_desc_length:
  "match_desc s = Some (out, r) \<Longrightarrow> length r < length s"
  by (auto simp: match_desc_def split: Option.bind_splits
      dest!: take_kw_length take_class_length desc_tail_length)

function sub_desc :: "string \<Rightarrow> string" where
  "sub_desc [] = []"
| "sub_desc (c # cs) =
     (case match_desc (c # cs) of
        Some (out, rest) \<Rightarrow> out @ sub_desc rest
      | None \<Rightarrow> c # sub_desc cs)"
  by pat_completeness auto
termination
  by (relation "measure length") (auto dest: match_desc_length)

subsection \<open>Missing FROM\<close>

text \<open>The \<open>for\<close> loop of source lines 271 to 275 over the upper-cased text.\<close>

fun first_keyword :: "string \<Rightarrow> string list \<Rightarrow> nat option" where
  "first_keyword u [] = None"
| "first_keyword u (keyword # keywords) =
     (case find_sub u keyword of
        Some idx \<Rightarrow> Some idx
      | None \<Rightarrow> first_keyword u keywords)"

text \<open>Source lines 268 to 278.\<close>

definition inject_from :: "string \<Rightarrow> string" where
  "inject_from sql =
     (if \<not> py_in ''FROM'' (upper sql) \<and> startswith (upper sql) ''SELECT''
      then (case first_keyword (upper sql) [''WHERE'', ''GROUP BY'', ''ORDER BY'', ''LIMIT''] of
              Some idx \<Rightarrow> take idx sql @ ''FROM complaints '' @ drop idx sql
            | None \<Rightarrow> rstrip_semicolons sql @ '' FROM complaints'')
      else sql)"

subsection \<open>Row cap\<close>

text \<open>\<open>int(ds)\<close> for a string of digits.\<close>

definition digit_value :: "char \<Rightarrow> nat" where
  "digit_value c = (case find_sub ''0123456789'' [c] of Some n \<Rightarrow> n | None \<Rightarrow> 0)"

definition int_of_digits :: "string \<Rightarrow> nat" where
  "int_of_digits ds = foldl (\<lambda>n c. 10 * n + digit_value c) 0 ds"

text \<open>
  The pattern \<open>LIMIT\s+(\d+)\<close> at the head of a string: the digits and the rest.
\<close>

definition match_limit :: "string \<Rightarrow> (string \<times> string) option" where
  "match_limit s = do {
     (a, s1) \<leftarrow> take_kw ''LIMIT'' s;
     (b, s2) \<leftarrow> take_class is_space s1;
     take_class is_digit s2
   }"

text \<open>\<open>re.search(r'LIMIT\s+(\d+)', sql, re.IGNORECASE)\<close> and its \<open>int(group(1))\<close>.\<close>

fun search_limit :: "string \<Rightarrow> nat option" where
  "search_limit [] = None"
| "search_limit (c # cs) =
     (case match_limit (c # cs) of
        Some (ds, rest) \<Rightarrow> Some (int_of_digits ds)
      | None \<Rightarrow> search_limit cs)"

lemma match_limit_length:
  "match_limit s = Some (ds, r) \<Longrightarrow> length r < length s"
  by (auto simp: match_limit_def split: Option.bind_splits
      dest!: take_kw_length take_class_length)

text \<open>\<open>re.sub(r'LIMIT\s+\d+', 'LIMIT 150', sql, flags=re.IGNORECASE)\<close>.\<close>

function sub_limit :: "string \<Rightarrow> string" where
  "sub_limit [] = []"
| "sub_limit (c # cs) =
     (case match_limit (c # cs) of
        Some (ds, rest) \<Rightarrow> ''LIMIT 150'' @ sub_limit rest
      | None \<Rightarrow> c # sub_limit cs)"
  by pat_completeness auto
termination
  by (relation "measure length") (auto dest: match_limit_length)

definition has_aggregation :: "string \<Rightarrow> bool" where
  "has_aggregation sql_upper =
     list_ex (\<lambda>fn. py_in fn sql_upper)
       [''COUNT('', ''SUM('', ''AVG('', ''MIN('', ''MAX('', ''GROUP BY'']"

text \<open>Source lines 281 to 291.\<close>

definition enforce_row_cap :: "string \<Rightarrow> string" where
  "enforce_row_cap sql =
     (let has_agg = has_aggregation (upper sql);
          has_limit = py_in ''LIMIT'' (upper sql);
          sql1 = (case search_limit sql of
                    Some current_limit \<Rightarrow> if current_limit < 150 then sub_limit sql else sql
                  | None \<Rightarrow> sql)
      in if \<not> has_agg \<and> \<not> has_limit then rstrip_semicolons sql1 @ '' LIMIT 150'' else sql1)"

subsection \<open>The pipeline\<close>

text \<open>The four repairs of source lines 232 to 291, in their order.\<close>

definition correct_sql :: "string list \<Rightarrow> string \<Rightarrow> string" where
  "correct_sql order sql = enforce_row_cap (inject_from (sub_desc (fix_columns order sql)))"

text \<open>
  \<open>generate_sql\<close>, given what the completion request comes to: the SQL and the error
  message, of which one is empty.
\<close>

definition generate_sql_from :: "string list \<Rightarrow> completion \<Rightarrow> string \<times> string option" where
  "generate_sql_from order reply =
     (case reply of
        Failed e \<Rightarrow> ([], Some (''Error generating SQL: '' @ exc_str e))
      | Reply None \<Rightarrow> ([], Some (''Error generating SQL: '' @ exc_str none_has_no_strip))
      | Reply (Some t) \<Rightarrow>
          (let sql = strip_sql_fences (strip t)
           in if \<not> is_select_or_with sql
              then ([], Some (''Invalid SQL generated: '' @ take 100 sql))
              else (correct_sql order sql, None)))"

section \<open>The query executor\<close>

text \<open>
  The store as \<open>database.py\<close> sees it.  A connection answers \<open>con.execute(sql)\<close> with a
  fault or with a cursor; a cursor has a \<open>description\<close> (the column names, or \<open>None\<close> for
  a statement that returns nothing) and a \<open>fetchall\<close>, which gives the rows as tuples or
  fails.  A connection is read as the function from the SQL text to that answer.
\<close>

datatype cursor =
  Cursor (description: "string list option") (fetchall: "py_exception + pyval list list")

type_synonym store = "string \<Rightarrow> py_exception + cursor"

text \<open>The module's global \<open>_connection\<close>; \<open>None\<close> until a connection is made.\<close>

record db =
  connection :: "store option"

text \<open>
  \<open>get_connection\<close>, source lines 19 to 24.  \<open>connect\<close> is what \<open>duckdb.connect\<close> comes to
  when it is called: a fault or a connection.
\<close>

definition get_connection :: "py_exception + store \<Rightarrow> db \<Rightarrow> (py_exception + store) \<times> db" where
  "get_connection connect st =
     (case connection st of
        Some con \<Rightarrow> (Inr con, st)
      | None \<Rightarrow>
          (case connect of
             Inl e \<Rightarrow> (Inl e, st)
           | Inr con \<Rightarrow> (Inr con, st\<lparr>connection := Some con\<rparr>)))"

text \<open>\<open>dict(zip(columns, row))\<close>: a repeated name keeps its place and takes the last value.\<close>

definition py_dict :: "(string \<times> pyval) list \<Rightarrow> row" where
  "py_dict kvs = foldl (\<lambda>d (k, v). AList.update k v d) [] kvs"

text \<open>What iterating over \<open>None\<close> raises.\<close>

definition none_not_iterable :: py_exception where
  "none_not_iterable =
     PyExc ''TypeError'' (CHR 0x27 # ''NoneType'' @ CHR 0x27 # '' object is not iterable'')"

text \<open>The \<open>try\<close> block of \<open>execute_query\<close> with its \<open>except\<close> clause, source lines 114 to 124.\<close>

definition run_query :: "store \<Rightarrow> string \<Rightarrow> row list \<times> string list \<times> string option" where
  "run_query con sql =
     (case con sql of
        Inl e \<Rightarrow> ([], [], Some (exc_str e))
      | Inr result \<Rightarrow>
          (case description result of
             None \<Rightarrow> ([], [], Some (exc_str none_not_iterable))
           | Some columns \<Rightarrow>
               (case fetchall result of
                  Inl e \<Rightarrow> ([], [], Some (exc_str e))
                | Inr rows \<Rightarrow> (map (\<lambda>row. py_dict (zip columns row)) rows, columns, None))))"

text \<open>
  \<open>execute_query\<close>, source lines 108 to 124: line 113 is outside the \<open>try\<close> block, so a
  fault of \<open>get_connection\<close> is raised to the caller.
\<close>

definition execute_query ::
  "py_exception + store \<Rightarrow> db \<Rightarrow> string
     \<Rightarrow> (py_exception + row list \<times> string list \<times> string option) \<times> db" where
  "execute_query connect st sql =
     (case get_connection connect st of
        (Inl e, st') \<Rightarrow> (Inl e, st')
      | (Inr con, st') \<Rightarrow> (Inr (run_query con sql), st'))"

text \<open>For the examples below: a store with two rows, a statement without rows and a parser.\<close>

definition example_store :: store where
  "example_store sql =
     (if sql = ''SELECT pm, raion FROM complaints LIMIT 150''
      then Inr (Cursor (Some [''pm'', ''raion''])
                  (Inr [[VStr ''Ionescu'', VStr ''BUCATARII''], [VStr ''Pop'', VStr ''ONLINE'']]))
      else if sql = ''DROP TABLE complaints''
      then Inr (Cursor None (Inl (PyExc ''InvalidInputException'' ''no open result set'')))
      else Inl (PyExc ''ParserException'' ''Parser Error: syntax error''))"


section \<open>Properties of the visualization classifier\<close>

text \<open>
  Claim C2, as amended.  \<open>_guess_visualization\<close> is a function of the rows and the columns
  alone and applies its rules in this order: an empty result and a single row with at
  most two columns give \<open>none\<close>; so does a column set the identifier and free-text
  exclusions catch; then a result with no numerically named column and a second column
  whose first value is not a number degrades to \<open>table\<close> (at most 15 rows) or \<open>none\<close>
  (more), before the temporal rule is looked at; then a temporal column name with more
  than 2 rows gives \<open>bar_chart\<close>; then exactly 2 columns with at most 8 rows give
  \<open>pie_chart\<close> up to 6 rows and \<open>bar_chart\<close> above; everything else gives \<open>bar_chart\<close>.
  Only the degrading rule gives \<open>table\<close>.
\<close>

theorem guess_visualization_rules:
  "(results = [] \<longrightarrow> guess_visualization results columns = ''none'')
   \<and> (length results = 1 \<and> length columns \<le> 2 \<longrightarrow>
        guess_visualization results columns = ''none'')
   \<and> (results \<noteq> [] \<and> \<not> (length results = 1 \<and> length columns \<le> 2)
        \<and> \<not> detail_excluded columns \<longrightarrow>
        guess_visualization results columns =
          (if no_numeric_data results columns
             then (if length results \<le> 15 then ''table'' else ''none'')
           else if has_time columns \<and> 2 < length results then ''bar_chart''
           else if length columns = 2 \<and> length results \<le> 8
             then (if length results \<le> 6 then ''pie_chart'' else ''bar_chart'')
           else ''bar_chart''))
   \<and> (guess_visualization results columns = ''table'' \<longrightarrow>
        no_numeric_data results columns \<and> length results \<le> 15)"
  by (simp add: guess_visualization_def)

theorem guess_visualization_rules_witness:
  "guess_visualization
     [[(''luna'', VStr ''ianuarie''), (''numar_reclamatii'', VInt 40)],
      [(''luna'', VStr ''februarie''), (''numar_reclamatii'', VInt 25)],
      [(''luna'', VStr ''martie''), (''numar_reclamatii'', VInt 31)]]
     [''luna'', ''numar_reclamatii''] = ''bar_chart''
   \<and> guess_visualization
     [[(''raion'', VStr ''BUCATARII''), (''pm'', VStr ''Ana'')],
      [(''raion'', VStr ''ONLINE''), (''pm'', VStr ''Dan'')]]
     [''raion'', ''pm''] = ''table''"
proof -
  let ?months = "[[(''luna'', VStr ''ianuarie''), (''numar_reclamatii'', VInt 40)],
      [(''luna'', VStr ''februarie''), (''numar_reclamatii'', VInt 25)],
      [(''luna'', VStr ''martie''), (''numar_reclamatii'', VInt 31)]]"
  let ?pairs = "[[(''raion'', VStr ''BUCATARII''), (''pm'', VStr ''Ana'')],
      [(''raion'', VStr ''ONLINE''), (''pm'', VStr ''Dan'')]]"
  have a: "\<not> detail_excluded [''luna'', ''numar_reclamatii'']"
    by code_simp
  have b: "\<not> no_numeric_data ?months [''luna'', ''numar_reclamatii'']"
    by code_simp
  have c: "has_time [''luna'', ''numar_reclamatii'']"
    by code_simp
  have d: "\<not> detail_excluded [''raion'', ''pm'']"
    by code_simp
  have e: "no_numeric_data ?pairs [''raion'', ''pm'']"
    by code_simp
  show ?thesis
    using guess_visualization_rules [of ?months "[''luna'', ''numar_reclamatii'']"]
      guess_visualization_rules [of ?pairs "[''raion'', ''pm'']"] a b c d e
    by simp
qed

text \<open>
  Claim C2 as stated fails: a result with the temporal column \<open>luna\<close>, three rows and
  no identifier or free-text column is not mapped to \<open>bar_chart\<close> when its second
  column holds text; it degrades to \<open>table\<close>, because the degrading rule runs before
  the temporal one.
\<close>

theorem temporal_rule_counterexample:
  "has_time [''luna'', ''raion'']
   \<and> 2 < length [[(''luna'', VStr ''ianuarie''), (''raion'', VStr ''BUCATARII'')],
                 [(''luna'', VStr ''februarie''), (''raion'', VStr ''ONLINE'')],
                 [(''luna'', VStr ''martie''), (''raion'', VStr ''BAI'')]]
   \<and> \<not> detail_excluded [''luna'', ''raion'']
   \<and> guess_visualization
        [[(''luna'', VStr ''ianuarie''), (''raion'', VStr ''BUCATARII'')],
         [(''luna'', VStr ''februarie''), (''raion'', VStr ''ONLINE'')],
         [(''luna'', VStr ''martie''), (''raion'', VStr ''BAI'')]]
        [''luna'', ''raion''] = ''table''"
  by code_simp

section \<open>Properties of the response formatter\<close>

lemma map_of_lift: "map_of (map (\<lambda>(k, v). (k, Val v)) d) k = map_option Val (map_of d k)"
  by (induction d) auto

lemma attach_sql:
  "map_of (attach sql results columns p) ''sql'' = Some (Val (JStr sql))"
  "map_of (attach sql results columns p) ''row_count'' = Some (Val (JInt (int (length results))))"
  by (simp_all add: attach_def Let_def update_conv')

lemma attach_other:
  "k \<notin> {''sql'', ''row_count'', ''data'', ''columns''} \<Longrightarrow>
   map_of (attach sql results columns p) k = map_of p k"
  by (simp add: attach_def Let_def update_conv')

lemma attach_data:
  "map_of p ''data'' = Some v \<Longrightarrow> map_of (attach sql results columns p) ''data'' = Some v"
  "map_of p ''columns'' = Some w \<Longrightarrow> map_of (attach sql results columns p) ''columns'' = Some w"
  by (simp_all add: attach_def Let_def update_conv')

lemma enforce_Inr:
  "enforce sql results columns parsed = Inr env \<Longrightarrow>
   \<exists>d p p'. parsed = JDict d \<and> clean_text_field (map (\<lambda>(k, v). (k, Val v)) d) = Inr p
     \<and> complete_detail results columns
          (force_detail columns (override_table results columns p)) = Inr p'
     \<and> env = attach sql results columns p'"
  by (auto simp: enforce_def split: jval.splits sum.splits)

lemma format_body_Inr:
  "format_body lib reply sql results columns = Inr env \<Longrightarrow>
   \<exists>t. reply = Reply (Some t)
     \<and> enforce sql results columns
          (parse_reply lib results columns (strip (strip_fences lib (strip t)))) = Inr env"
  by (auto simp: format_body_def split: completion.splits option.splits)

lemma complete_detail_viz:
  "complete_detail results columns q = Inr p' \<Longrightarrow>
   map_of p' ''visualization'' = map_of q ''visualization''"
  by (auto simp: complete_detail_def Let_def update_conv'
      split: if_splits option.splits pyobj.splits jval.splits)

lemma complete_detail_cleared:
  "complete_detail results columns q = Inr p' \<Longrightarrow> is_detail columns \<Longrightarrow>
   length results \<le> 60 \<Longrightarrow> map_of q ''visualization'' = Some (Val (JStr ''none'')) \<Longrightarrow>
   map_of p' ''data'' = Some (Rows []) \<and> map_of p' ''columns'' = Some (Names [])"
  by (auto simp: complete_detail_def Let_def update_conv'
      split: if_splits option.splits pyobj.splits jval.splits)

lemma force_detail_viz:
  "is_detail columns \<Longrightarrow>
   map_of (force_detail columns p) ''visualization''
     \<in> {Some (Val (JStr ''none'')), Some (Val (JStr ''table''))}"
  by (auto simp: force_detail_def update_conv')

lemma clean_text_field_viz:
  "clean_text_field p = Inr p' \<Longrightarrow> map_of p' ''visualization'' = map_of p ''visualization''"
  by (auto simp: clean_text_field_def update_conv' split: option.splits pyobj.splits jval.splits)

lemma overrides_viz:
  "map_of p' ''visualization'' = map_of p ''visualization'' \<Longrightarrow>
   map_of (force_detail columns (override_table results columns p')) ''visualization''
     = map_of (force_detail columns (override_table results columns p)) ''visualization''"
  unfolding force_detail_def override_table_def
  by (auto simp: update_conv')

lemma overrides_text:
  "map_of (force_detail columns (override_table results columns p)) ''text'' = map_of p ''text''"
  by (simp add: force_detail_def override_table_def update_conv')

lemma excerpt_length: "length (excerpt v) \<le> 150"
  by (simp add: excerpt_def Let_def)

text \<open>
  Claim C8.  \<open>format_response\<close> returns an envelope for every input: the envelope carries
  the SQL it was given and the number of input rows as \<open>row_count\<close>, and when the body
  of the \<open>try\<close> block raises, the envelope is the one of the \<open>except\<close> clause, built from
  the raw rows and columns with visualization \<open>none\<close> and a text that names the fault.
\<close>

theorem format_response_total:
  "map_of (format_response lib reply sql results columns) ''sql'' = Some (Val (JStr sql))
   \<and> map_of (format_response lib reply sql results columns) ''row_count''
       = Some (Val (JInt (int (length results))))
   \<and> (\<forall>e. format_body lib reply sql results columns = Inl e \<longrightarrow>
         format_response lib reply sql results columns =
           [(''text'', Val (JStr (''Eroare la formatarea r'' @ [a_breve] @ ''spunsului: ''
                                   @ exc_str e))),
            (''visualization'', Val (JStr ''none'')),
            (''data'', Rows results),
            (''columns'', Names columns),
            (''sql'', Val (JStr sql)),
            (''row_count'', Val (JInt (int (length results))))])"
proof (cases "format_body lib reply sql results columns")
  case (Inl e)
  then show ?thesis
    by (simp add: format_response_def fault_envelope_def)
next
  case (Inr env)
  then obtain t where "enforce sql results columns
      (parse_reply lib results columns (strip (strip_fences lib (strip t)))) = Inr env"
    using format_body_Inr by blast
  then obtain p' where "env = attach sql results columns p'"
    using enforce_Inr by blast
  with Inr show ?thesis
    by (simp add: format_response_def attach_sql)
qed

theorem format_response_total_witness:
  "format_response (stub_lib JNone) (Failed (PyExc ''ServerError'' ''503 unavailable''))
     ''SELECT pm FROM complaints LIMIT 150'' [[(''pm'', VStr ''Ana'')]] [''pm'']
   = [(''text'', Val (JStr (''Eroare la formatarea r'' @ [a_breve]
                             @ ''spunsului: 503 unavailable''))),
      (''visualization'', Val (JStr ''none'')),
      (''data'', Rows [[(''pm'', VStr ''Ana'')]]),
      (''columns'', Names [''pm'']),
      (''sql'', Val (JStr ''SELECT pm FROM complaints LIMIT 150'')),
      (''row_count'', Val (JInt 1))]"
proof -
  have "format_body (stub_lib JNone) (Failed (PyExc ''ServerError'' ''503 unavailable''))
     ''SELECT pm FROM complaints LIMIT 150'' [[(''pm'', VStr ''Ana'')]] [''pm'']
     = Inl (PyExc ''ServerError'' ''503 unavailable'')"
    by (simp add: format_body_def)
  then show ?thesis
    using format_response_total [of "stub_lib JNone"
        "Failed (PyExc ''ServerError'' ''503 unavailable'')"
        "''SELECT pm FROM complaints LIMIT 150''" "[[(''pm'', VStr ''Ana'')]]" "[''pm'']"]
    by simp
qed
text \<open>
  Claim C10, as amended.  Whenever the column set meets the detail-column set, there are
  at most 60 rows, the body of \<open>format_response\<close> completes without a fault and the
  visualization of its envelope is \<open>none\<close>, the envelope's \<open>data\<close> and \<open>columns\<close> are
  empty, whether or not a list was rebuilt.  (On a fault the envelope of the \<open>except\<close>
  clause carries the raw rows and columns instead.)
\<close>

theorem detail_data_cleared:
  assumes "is_detail columns" and "length results \<le> 60"
    and "\<not> isl (format_body lib reply sql results columns)"
    and "map_of (format_response lib reply sql results columns) ''visualization''
           = Some (Val (JStr ''none''))"
  shows "map_of (format_response lib reply sql results columns) ''data'' = Some (Rows [])
       \<and> map_of (format_response lib reply sql results columns) ''columns'' = Some (Names [])"
proof -
  from assms(3) obtain env where body: "format_body lib reply sql results columns = Inr env"
    by (cases "format_body lib reply sql results columns") auto
  then have resp: "format_response lib reply sql results columns = env"
    by (simp add: format_response_def)
  from body obtain p p' where
    cd: "complete_detail results columns
           (force_detail columns (override_table results columns p)) = Inr p'"
    and env: "env = attach sql results columns p'"
    using format_body_Inr enforce_Inr by blast
  have "map_of p' ''visualization'' = Some (Val (JStr ''none''))"
    using assms(4) resp env by (simp add: attach_other)
  then have "map_of (force_detail columns (override_table results columns p)) ''visualization''
      = Some (Val (JStr ''none''))"
    using complete_detail_viz [OF cd] by simp
  from complete_detail_cleared [OF cd assms(1,2) this] show ?thesis
    using resp env by (simp add: attach_data)
qed

theorem detail_data_cleared_witness:
  "map_of (format_response
        (stub_lib (JDict [(''text'', JStr ''Reclamatiile 246 si 247.''),
                          (''visualization'', JStr ''none'')]))
        (Reply (Some ''{}'')) ''SELECT nr_reclamatie FROM complaints LIMIT 150''
        [[(''nr_reclamatie'', VInt 246)], [(''nr_reclamatie'', VInt 247)]]
        [''nr_reclamatie'']) ''data'' = Some (Rows [])
   \<and> map_of (format_response
        (stub_lib (JDict [(''text'', JStr ''Reclamatiile 246 si 247.''),
                          (''visualization'', JStr ''none'')]))
        (Reply (Some ''{}'')) ''SELECT nr_reclamatie FROM complaints LIMIT 150''
        [[(''nr_reclamatie'', VInt 246)], [(''nr_reclamatie'', VInt 247)]]
        [''nr_reclamatie'']) ''text'' = Some (Val (JStr ''Reclamatiile 246 si 247.''))"
proof -
  let ?lib = "stub_lib (JDict [(''text'', JStr ''Reclamatiile 246 si 247.''),
                          (''visualization'', JStr ''none'')])"
  let ?rows = "[[(''nr_reclamatie'', VInt 246)], [(''nr_reclamatie'', VInt 247)]]"
  let ?sql = "''SELECT nr_reclamatie FROM complaints LIMIT 150''"
  have a: "is_detail [''nr_reclamatie'']"
    by code_simp
  have b: "\<not> isl (format_body ?lib (Reply (Some ''{}'')) ?sql ?rows [''nr_reclamatie''])"
    by code_simp
  have c: "map_of (format_response ?lib (Reply (Some ''{}'')) ?sql ?rows [''nr_reclamatie''])
             ''visualization'' = Some (Val (JStr ''none''))"
    by code_simp
  have d: "map_of (format_response ?lib (Reply (Some ''{}'')) ?sql ?rows [''nr_reclamatie''])
             ''text'' = Some (Val (JStr ''Reclamatiile 246 si 247.''))"
    by code_simp
  show ?thesis
    using detail_data_cleared [OF a _ b c] d by simp
qed

text \<open>
  Claim C10 as stated fails on the fault path: when the completion request raises, the
  envelope has visualization \<open>none\<close>, the columns meet the detail set and there is one
  row, yet \<open>data\<close> and \<open>columns\<close> still hold the raw row and column.
\<close>

theorem detail_data_cleared_counterexample:
  "is_detail [''nr_reclamatie'']
   \<and> length [[(''nr_reclamatie'', VInt 246)]] \<le> 60
   \<and> map_of (format_response (stub_lib JNone) (Failed (PyExc ''ServerError'' ''503''))
        ''SELECT nr_reclamatie FROM complaints LIMIT 150''
        [[(''nr_reclamatie'', VInt 246)]] [''nr_reclamatie'']) ''visualization''
       = Some (Val (JStr ''none''))
   \<and> map_of (format_response (stub_lib JNone) (Failed (PyExc ''ServerError'' ''503''))
        ''SELECT nr_reclamatie FROM complaints LIMIT 150''
        [[(''nr_reclamatie'', VInt 246)]] [''nr_reclamatie'']) ''data''
       = Some (Rows [[(''nr_reclamatie'', VInt 246)]])
   \<and> map_of (format_response (stub_lib JNone) (Failed (PyExc ''ServerError'' ''503''))
        ''SELECT nr_reclamatie FROM complaints LIMIT 150''
        [[(''nr_reclamatie'', VInt 246)]] [''nr_reclamatie'']) ''columns''
       = Some (Names [''nr_reclamatie''])"
  by code_simp

text \<open>
  Claim C3, as amended.  For every result set with a column in the detail-column set
  (identifier or free text, by lower-cased name), the visualization of the envelope that
  \<open>format_response\<close> returns is never a chart kind: it is \<open>none\<close> or \<open>table\<close>, because the
  Formatter forces the model's choice to \<open>none\<close> whenever it is anything other than
  \<open>none\<close> or \<open>table\<close>.  The classifier itself maps a result to \<open>none\<close> when one of its
  four exclusions holds (an \<open>observatii\<close> or \<open>observatie\<close> column; every column a detail
  column, a date or \<open>magazin\<close>; every column that is not a date a detail column; a single
  detail column), not for every result with a detail column.
\<close>

theorem detail_never_charted:
  "(is_detail columns \<longrightarrow>
      map_of (format_response lib reply sql results columns) ''visualization''
        \<in> {Some (Val (JStr ''none'')), Some (Val (JStr ''table''))})
   \<and> (is_detail columns \<and> map_of d ''visualization'' \<noteq> Some (JStr ''none'')
        \<and> map_of d ''visualization'' \<noteq> Some (JStr ''table'') \<longrightarrow>
      final_visualization results columns d = Some (Val (JStr ''none'')))
   \<and> (detail_excluded columns \<longrightarrow> guess_visualization results columns = ''none'')"
proof (intro conjI impI)
  assume det: "is_detail columns"
  show "map_of (format_response lib reply sql results columns) ''visualization''
          \<in> {Some (Val (JStr ''none'')), Some (Val (JStr ''table''))}"
  proof (cases "format_body lib reply sql results columns")
    case (Inl e)
    then show ?thesis
      by (simp add: format_response_def fault_envelope_def)
  next
    case (Inr env)
    then obtain p p' where
      cd: "complete_detail results columns
             (force_detail columns (override_table results columns p)) = Inr p'"
      and env: "env = attach sql results columns p'"
      using format_body_Inr enforce_Inr by blast
    have "map_of env ''visualization''
        = map_of (force_detail columns (override_table results columns p)) ''visualization''"
      using complete_detail_viz [OF cd] env by (simp add: attach_other)
    with force_detail_viz [OF det] Inr show ?thesis
      by (simp add: format_response_def)
  qed
next
  assume "is_detail columns \<and> map_of d ''visualization'' \<noteq> Some (JStr ''none'')
        \<and> map_of d ''visualization'' \<noteq> Some (JStr ''table'')"
  then show "final_visualization results columns d = Some (Val (JStr ''none''))"
    by (auto simp: final_visualization_def force_detail_def override_table_def update_conv'
        map_of_lift)
next
  assume "detail_excluded columns"
  then show "guess_visualization results columns = ''none''"
    by (simp add: guess_visualization_def)
qed

theorem detail_never_charted_witness:
  "map_of (format_response
        (stub_lib (JDict [(''text'', JStr ''Reclamatii pe raion''),
                          (''visualization'', JStr ''bar_chart'')]))
        (Reply (Some ''{}'')) ''SELECT nr_reclamatie, raion FROM complaints LIMIT 150''
        [[(''nr_reclamatie'', VInt 246), (''raion'', VStr ''BUCATARII'')],
         [(''nr_reclamatie'', VInt 247), (''raion'', VStr ''ONLINE'')]]
        [''nr_reclamatie'', ''raion'']) ''visualization'' = Some (Val (JStr ''none''))
   \<and> final_visualization
        [[(''nr_reclamatie'', VInt 246), (''raion'', VStr ''BUCATARII'')],
         [(''nr_reclamatie'', VInt 247), (''raion'', VStr ''ONLINE'')]]
        [''nr_reclamatie'', ''raion'']
        [(''text'', JStr ''Reclamatii pe raion''), (''visualization'', JStr ''bar_chart'')]
       = Some (Val (JStr ''none''))
   \<and> guess_visualization
        [[(''nr_reclamatie'', VInt 246), (''data'', VStr ''2022-02-01'')],
         [(''nr_reclamatie'', VInt 247), (''data'', VStr ''2022-02-01'')]]
        [''nr_reclamatie'', ''data''] = ''none''"
proof -
  let ?d = "[(''text'', JStr ''Reclamatii pe raion''), (''visualization'', JStr ''bar_chart'')]"
  let ?rows = "[[(''nr_reclamatie'', VInt 246), (''raion'', VStr ''BUCATARII'')],
         [(''nr_reclamatie'', VInt 247), (''raion'', VStr ''ONLINE'')]]"
  have a: "is_detail [''nr_reclamatie'', ''raion'']"
    by code_simp
  have b: "map_of ?d ''visualization'' \<noteq> Some (JStr ''none'')
         \<and> map_of ?d ''visualization'' \<noteq> Some (JStr ''table'')"
    by simp
  have c: "detail_excluded [''nr_reclamatie'', ''data'']"
    by code_simp
  have d: "map_of (format_response (stub_lib (JDict ?d)) (Reply (Some ''{}''))
        ''SELECT nr_reclamatie, raion FROM complaints LIMIT 150'' ?rows
        [''nr_reclamatie'', ''raion'']) ''visualization'' \<noteq> Some (Val (JStr ''table''))"
    by code_simp
  show ?thesis
    using detail_never_charted [of "[''nr_reclamatie'', ''raion'']" "stub_lib (JDict ?d)"
        "Reply (Some ''{}'')" "''SELECT nr_reclamatie, raion FROM complaints LIMIT 150''"
        ?rows ?d]
      detail_never_charted [of "[''nr_reclamatie'', ''data'']" _ _ _
        "[[(''nr_reclamatie'', VInt 246), (''data'', VStr ''2022-02-01'')],
          [(''nr_reclamatie'', VInt 247), (''data'', VStr ''2022-02-01'')]]" ?d]
      a b c d
    by simp
qed

text \<open>
  Claim C3 as stated fails for the classifier: \<open>numar\<close> is in the detail-column set, yet
  the grouped result over \<open>raion\<close> and \<open>numar\<close> is classified as a pie chart.
\<close>

theorem classifier_charts_detail_counterexample:
  "is_detail [''raion'', ''numar'']
   \<and> guess_visualization
        [[(''raion'', VStr ''BUCATARII''), (''numar'', VInt 40)],
         [(''raion'', VStr ''ONLINE''), (''numar'', VInt 25)],
         [(''raion'', VStr ''BAI''), (''numar'', VInt 31)]]
        [''raion'', ''numar''] = ''pie_chart''"
  by code_simp

lemma missing_values_nonempty:
  assumes "list_all (\<lambda>r. r \<noteq> []) results"
    and "list_ex (\<lambda>r. \<not> py_in (primary_value r) t) results"
  shows "missing_values results t \<noteq> []"
proof -
  from assms(1) have "filter (\<lambda>r. r \<noteq> []) results = results"
    by (simp add: list_all_iff)
  moreover from assms(2) obtain r where "r \<in> set results" "\<not> py_in (primary_value r) t"
    by (auto simp: list_ex_iff)
  ultimately have "primary_value r \<in> set (missing_values results t)"
    by (simp add: missing_values_def)
  then show ?thesis by auto
qed

lemma complete_detail_rebuilt:
  assumes "is_detail columns" and "length results \<le> 60"
    and "map_of q ''visualization'' = Some (Val (JStr ''none''))"
    and "map_of q ''text'' = Some (Val (JStr t))"
    and "list_all (\<lambda>r. r \<noteq> []) results"
    and "list_ex (\<lambda>r. \<not> py_in (primary_value r) t) results"
  shows "complete_detail results columns q =
     Inr (AList.update ''columns'' (Names [])
            (AList.update ''data'' (Rows [])
               (AList.update ''text'' (Val (JStr (t @ detail_list results))) q)))"
proof -
  have m: "missing_values results (text_of q) \<noteq> []"
    using missing_values_nonempty [OF assms(5,6)] assms(4) by (simp add: text_of_def)
  have e: "\<not> list_ex (\<lambda>r. r = []) results"
    using assms(5) by (auto simp: list_all_iff list_ex_iff)
  show ?thesis
    using assms(1-4) m e by (simp add: complete_detail_def)
qed

text \<open>
  The list of source lines 490 to 524 on a reply with a text: for a result whose columns
  meet the detail set, a final visualization \<open>none\<close> and at most 60 rows (each with at
  least one cell), when the primary value of some row does not occur in the reply's
  text, the list is appended to that text, \<open>data\<close> and \<open>columns\<close> are emptied and
  \<open>row_count\<close> is still the number of rows.
\<close>

lemma detail_list_appended:
  assumes "is_detail columns" and "length results \<le> 60"
    and "list_all (\<lambda>r. r \<noteq> []) results"
    and "parse_reply lib results columns (strip (strip_fences lib (strip raw))) = JDict d"
    and "map_of d ''text'' = Some (JStr t)"
    and "final_visualization results columns d = Some (Val (JStr ''none''))"
    and "list_ex (\<lambda>r. \<not> py_in (primary_value r) (unescape_quotes t)) results"
  shows "map_of (format_response lib (Reply (Some raw)) sql results columns) ''text''
           = Some (Val (JStr (unescape_quotes t @ detail_list results)))
       \<and> map_of (format_response lib (Reply (Some raw)) sql results columns) ''data''
           = Some (Rows [])
       \<and> map_of (format_response lib (Reply (Some raw)) sql results columns) ''columns''
           = Some (Names [])
       \<and> map_of (format_response lib (Reply (Some raw)) sql results columns) ''row_count''
           = Some (Val (JInt (int (length results))))"
proof -
  let ?p0 = "map (\<lambda>(k, v). (k, Val v)) d"
  let ?p1 = "AList.update ''text'' (Val (JStr (unescape_quotes t))) ?p0"
  let ?q = "force_detail columns (override_table results columns ?p1)"
  have clean: "clean_text_field ?p0 = Inr ?p1"
    using assms(5) by (simp add: clean_text_field_def map_of_lift)
  have "map_of ?p1 ''visualization'' = map_of ?p0 ''visualization''"
    by (simp add: update_conv')
  then have viz: "map_of ?q ''visualization'' = Some (Val (JStr ''none''))"
    using overrides_viz [of ?p1 ?p0 columns results] assms(6)
    by (simp add: final_visualization_def)
  have tq: "map_of ?q ''text'' = Some (Val (JStr (unescape_quotes t)))"
    by (simp add: overrides_text update_conv')
  have cd: "complete_detail results columns ?q =
     Inr (AList.update ''columns'' (Names [])
            (AList.update ''data'' (Rows [])
               (AList.update ''text''
                  (Val (JStr (unescape_quotes t @ detail_list results))) ?q)))"
    by (rule complete_detail_rebuilt [OF assms(1,2) viz tq assms(3,7)])
  have "format_response lib (Reply (Some raw)) sql results columns =
     attach sql results columns
       (AList.update ''columns'' (Names [])
          (AList.update ''data'' (Rows [])
             (AList.update ''text''
                (Val (JStr (unescape_quotes t @ detail_list results))) ?q)))"
    using assms(4) clean cd by (simp add: format_response_def format_body_def enforce_def)
  then show ?thesis
    by (simp add: attach_sql attach_other attach_data update_conv')
qed

text \<open>Two rows, the first with a \<open>magazin\<close> cell: the text that comes out.\<close>

lemma detail_list_appended_example:
  "map_of (format_response
        (stub_lib (JDict [(''text'', JStr ''Reclamatia 246 este din Brasov.''),
                          (''visualization'', JStr ''bar_chart'')]))
        (Reply (Some ''{}'')) ''SELECT nr_reclamatie, magazin, observatii FROM complaints''
        [[(''nr_reclamatie'', VInt 246), (''magazin'', VStr ''Brasov''),
          (''observatii'', VStr ''pazie defecta'')],
         [(''nr_reclamatie'', VInt 247), (''magazin'', VStr ''''),
          (''observatii'', VStr ''lovit la colt'')]]
        [''nr_reclamatie'', ''magazin'', ''observatii'']) ''text''
     = Some (Val (JStr (''Reclamatia 246 este din Brasov.'' @ [newline, newline]
          @ ''**Lista detaliat'' @ [a_breve] @ '' (2 '' @ [i_circ] @ ''nregistr'' @ [a_breve]
          @ ''ri):**'' @ [newline]
          @ [bullet] @ '' 246 (Brasov) - pazie defecta'' @ [newline]
          @ [bullet] @ '' 247 - lovit la colt'')))"
proof -
  let ?d = "[(''text'', JStr ''Reclamatia 246 este din Brasov.''),
             (''visualization'', JStr ''bar_chart'')]"
  let ?rows = "[[(''nr_reclamatie'', VInt 246), (''magazin'', VStr ''Brasov''),
          (''observatii'', VStr ''pazie defecta'')],
         [(''nr_reclamatie'', VInt 247), (''magazin'', VStr ''''),
          (''observatii'', VStr ''lovit la colt'')]]"
  let ?cols = "[''nr_reclamatie'', ''magazin'', ''observatii'']"
  have a: "is_detail ?cols"
    by code_simp
  have b: "list_all (\<lambda>r. r \<noteq> []) ?rows"
    by simp
  have c: "parse_reply (stub_lib (JDict ?d)) ?rows ?cols
             (strip (strip_fences (stub_lib (JDict ?d)) (strip ''{}''))) = JDict ?d"
    by (simp add: parse_reply_def stub_lib_def)
  have d: "final_visualization ?rows ?cols ?d = Some (Val (JStr ''none''))"
    by code_simp
  have e: "list_ex (\<lambda>r. \<not> py_in (primary_value r)
             (unescape_quotes ''Reclamatia 246 este din Brasov.'')) ?rows"
    by code_simp
  have f: "unescape_quotes ''Reclamatia 246 este din Brasov.'' @ detail_list ?rows
      = ''Reclamatia 246 este din Brasov.'' @ [newline, newline]
          @ ''**Lista detaliat'' @ [a_breve] @ '' (2 '' @ [i_circ] @ ''nregistr'' @ [a_breve]
          @ ''ri):**'' @ [newline]
          @ [bullet] @ '' 246 (Brasov) - pazie defecta'' @ [newline]
          @ [bullet] @ '' 247 - lovit la colt''"
    by code_simp
  show ?thesis
    using detail_list_appended [OF a _ b c _ d e, of
        "''SELECT nr_reclamatie, magazin, observatii FROM complaints''"] f
    by simp
qed

lemma complete_detail_no_text:
  assumes "is_detail columns" and "length results \<le> 60"
    and "map_of q ''visualization'' = Some (Val (JStr ''none''))"
    and "map_of q ''text'' = None"
    and "list_all (\<lambda>r. r \<noteq> []) results"
    and "list_ex (\<lambda>r. primary_value r \<noteq> []) results"
  shows "complete_detail results columns q
           = Inl (PyExc ''KeyError'' (CHR 0x27 # ''text'' @ [CHR 0x27]))"
proof -
  from assms(6) have "list_ex (\<lambda>r. \<not> py_in (primary_value r) []) results"
    by (simp add: list_ex_iff)
  then have m: "missing_values results (text_of q) \<noteq> []"
    using missing_values_nonempty [OF assms(5)] assms(4) by (simp add: text_of_def)
  have e: "\<not> list_ex (\<lambda>r. r = []) results"
    using assms(5) by (auto simp: list_all_iff list_ex_iff)
  show ?thesis
    using assms(1-4) m e by (simp add: complete_detail_def)
qed

text \<open>
  Claim C7 (for a visualization \<open>none\<close>, detail columns and at most 60 rows, when the
  primary value of some row does not occur in the model's text, the list is appended to
  the text and \<open>data\<close> and \<open>columns\<close> are cleared) fails on a reply that has no text
  field.  Line 492 reads the missing text as the empty text, so every row with a
  non-empty primary value is missing from it and the list is built; line 521 then
  appends it to \<open>parsed["text"]\<close>, which raises \<open>KeyError\<close>.  The \<open>except\<close> clause
  answers with the message of the fault as the text and with the raw rows and columns:
  no list is appended and nothing is cleared.
\<close>

theorem detail_list_missing_text:
  assumes "is_detail columns" and "length results \<le> 60"
    and "list_all (\<lambda>r. r \<noteq> []) results"
    and "parse_reply lib results columns (strip (strip_fences lib (strip raw))) = JDict d"
    and "map_of d ''text'' = None"
    and "final_visualization results columns d = Some (Val (JStr ''none''))"
    and "list_ex (\<lambda>r. primary_value r \<noteq> []) results"
  shows "format_response lib (Reply (Some raw)) sql results columns
           = [(''text'', Val (JStr (''Eroare la formatarea r'' @ [a_breve] @ ''spunsului: ''
                                     @ [CHR 0x27] @ ''text'' @ [CHR 0x27]))),
              (''visualization'', Val (JStr ''none'')),
              (''data'', Rows results),
              (''columns'', Names columns),
              (''sql'', Val (JStr sql)),
              (''row_count'', Val (JInt (int (length results))))]"
proof -
  let ?p0 = "map (\<lambda>(k, v). (k, Val v)) d"
  let ?q = "force_detail columns (override_table results columns ?p0)"
  have clean: "clean_text_field ?p0 = Inr ?p0"
    using assms(5) by (simp add: clean_text_field_def map_of_lift)
  have viz: "map_of ?q ''visualization'' = Some (Val (JStr ''none''))"
    using assms(6) by (simp add: final_visualization_def)
  have tq: "map_of ?q ''text'' = None"
    using assms(5) by (simp add: overrides_text map_of_lift)
  have cd: "complete_detail results columns ?q
              = Inl (PyExc ''KeyError'' (CHR 0x27 # ''text'' @ [CHR 0x27]))"
    by (rule complete_detail_no_text [OF assms(1,2) viz tq assms(3,7)])
  show ?thesis
    using assms(4) clean cd
    by (simp add: format_response_def format_body_def enforce_def fault_envelope_def)
qed

theorem detail_list_missing_text_witness:
  "format_response (stub_lib (JDict [(''visualization'', JStr ''none'')]))
        (Reply (Some ''{}'')) ''SELECT nr_reclamatie FROM complaints''
        [[(''nr_reclamatie'', VInt 246)], [(''nr_reclamatie'', VInt 247)]]
        [''nr_reclamatie'']
     = [(''text'', Val (JStr (''Eroare la formatarea r'' @ [a_breve] @ ''spunsului: ''
                               @ [CHR 0x27] @ ''text'' @ [CHR 0x27]))),
        (''visualization'', Val (JStr ''none'')),
        (''data'', Rows [[(''nr_reclamatie'', VInt 246)], [(''nr_reclamatie'', VInt 247)]]),
        (''columns'', Names [''nr_reclamatie'']),
        (''sql'', Val (JStr ''SELECT nr_reclamatie FROM complaints'')),
        (''row_count'', Val (JInt 2))]"
proof -
  let ?d = "[(''visualization'', JStr ''none'')]"
  let ?rows = "[[(''nr_reclamatie'', VInt 246)], [(''nr_reclamatie'', VInt 247)]]"
  let ?cols = "[''nr_reclamatie'']"
  have a: "is_detail ?cols"
    by code_simp
  have b: "list_all (\<lambda>r. r \<noteq> []) ?rows"
    by simp
  have c: "parse_reply (stub_lib (JDict ?d)) ?rows ?cols
             (strip (strip_fences (stub_lib (JDict ?d)) (strip ''{}''))) = JDict ?d"
    by (simp add: parse_reply_def stub_lib_def)
  have d: "final_visualization ?rows ?cols ?d = Some (Val (JStr ''none''))"
    by code_simp
  have e: "list_ex (\<lambda>r. primary_value r \<noteq> []) ?rows"
    by code_simp
  show ?thesis
    using detail_list_missing_text [OF a _ b c _ d e, of
        "''SELECT nr_reclamatie FROM complaints''"]
    by simp
qed

section \<open>Characters and strings\<close>

lemma upper_table_dom: "fst ` set (zip lowers uppers) = set lowers"
  by (simp add: lowers_def uppers_def)

lemma upper_char_None:
  assumes "c \<notin> set lowers"
  shows "upper_char c = c"
proof -
  have "map_of (zip lowers uppers) c = None"
    unfolding map_of_eq_None_iff upper_table_dom using assms .
  then show ?thesis by (simp add: upper_char_def)
qed

lemma upper_char_cases:
  obtains (same) "c \<notin> set lowers" "upper_char c = c"
  | (up) "(c, upper_char c) \<in> set (zip lowers uppers)"
proof (cases "map_of (zip lowers uppers) c")
  case None
  then have "c \<notin> set lowers"
    unfolding map_of_eq_None_iff upper_table_dom .
  then show ?thesis using same upper_char_None by blast
next
  case (Some u)
  then have "(c, u) \<in> set (zip lowers uppers)"
    by (rule map_of_SomeD)
  with Some show ?thesis using up by (simp add: upper_char_def)
qed

lemma zip_distinct_eq:
  assumes "distinct xs" and "distinct ys"
    and "(a, b) \<in> set (zip xs ys)" and "(a', b') \<in> set (zip xs ys)"
  shows "b = b' \<longleftrightarrow> a = a'"
proof -
  from assms(3) obtain n where n: "xs ! n = a" "ys ! n = b" "n < length xs" "n < length ys"
    by (auto simp: in_set_zip)
  from assms(4) obtain m where m: "xs ! m = a'" "ys ! m = b'" "m < length xs" "m < length ys"
    by (auto simp: in_set_zip)
  have "a = a' \<longleftrightarrow> n = m" using n m assms(1) by (auto simp: nth_eq_iff_index_eq)
  moreover have "b = b' \<longleftrightarrow> n = m" using n m assms(2) by (auto simp: nth_eq_iff_index_eq)
  ultimately show ?thesis by simp
qed

lemma distinct_lowers: "distinct lowers"
  by (simp add: lowers_def)

lemma distinct_uppers: "distinct uppers"
  by (simp add: uppers_def)

lemma lowers_not_uppers: "x \<in> set lowers \<Longrightarrow> x \<notin> set uppers"
  by (auto simp: lowers_def uppers_def)

lemma upper_char_eq_iff:
  assumes "(l, u) \<in> set (zip lowers uppers)"
  shows "upper_char c = u \<longleftrightarrow> c = u \<or> c = l"
proof (cases c rule: upper_char_cases)
  case same
  moreover have "l \<in> set lowers" using assms by (rule set_zip_leftD)
  ultimately show ?thesis by auto
next
  case up
  have "c \<in> set lowers" using up by (rule set_zip_leftD)
  moreover have "u \<in> set uppers" using assms by (rule set_zip_rightD)
  ultimately have "c \<noteq> u" using lowers_not_uppers by blast
  moreover have "upper_char c = u \<longleftrightarrow> c = l"
    using zip_distinct_eq [OF distinct_lowers distinct_uppers up assms] .
  ultimately show ?thesis by simp
qed

lemma upper_char_L: "upper_char c = CHR ''L'' \<longleftrightarrow> c = CHR ''L'' \<or> c = CHR ''l''"
  by (rule upper_char_eq_iff) (simp add: lowers_def uppers_def)





lemma upper_Nil [simp]: "upper [] = []"
  by (simp add: upper_def)

lemma upper_Cons [simp]: "upper (c # cs) = upper_char c # upper cs"
  by (simp add: upper_def)



lemma upper_take: "upper (take n s) = take n (upper s)"
  by (simp add: upper_def take_map)

lemma startswith_iff: "startswith s p \<longleftrightarrow> (\<exists>r. s = p @ r)"
  by (induction s p rule: startswith.induct) auto

lemma startswith_append: "startswith a p \<Longrightarrow> startswith (a @ b) p"
  by (auto simp: startswith_iff)

lemma py_in_iff: "py_in p s \<longleftrightarrow> (\<exists>x y. s = x @ p @ y)"
proof (induction s)
  case Nil
  then show ?case by auto
next
  case (Cons c cs)
  show ?case
  proof
    assume "py_in p (c # cs)"
    then consider "startswith (c # cs) p" | "py_in p cs" by auto
    then show "\<exists>x y. c # cs = x @ p @ y"
    proof cases
      case 1
      then obtain r where "c # cs = p @ r" by (auto simp: startswith_iff)
      then have "c # cs = [] @ p @ r" by simp
      then show ?thesis by blast
    next
      case 2
      then obtain x y where "cs = x @ p @ y" using Cons.IH by auto
      then have "c # cs = (c # x) @ p @ y" by simp
      then show ?thesis by blast
    qed
  next
    assume "\<exists>x y. c # cs = x @ p @ y"
    then obtain x y where xy: "c # cs = x @ p @ y" by auto
    show "py_in p (c # cs)"
    proof (cases x)
      case Nil
      with xy have "startswith (c # cs) p" by (auto simp: startswith_iff)
      then show ?thesis by simp
    next
      case (Cons a x')
      with xy have "cs = x' @ p @ y" by simp
      then have "py_in p cs" using Cons.IH by auto
      then show ?thesis by simp
    qed
  qed
qed


lemma py_in_appendI2: "py_in p b \<Longrightarrow> py_in p (a @ b)"
  by (auto simp: py_in_iff) (metis append.assoc)





section \<open>Properties of the corrector\<close>

lemma upper_LIMIT_150 [simp]: "upper ''LIMIT 150'' = ''LIMIT 150''"
  by code_simp



















lemma py_in_prefix:
  assumes "py_in p (a @ b)" and "p \<noteq> []" and "\<forall>c\<in>set b. c \<notin> set p"
  shows "py_in p a"
  using assms
proof (induction b rule: rev_induct)
  case Nil
  then show ?case by simp
next
  case (snoc x b)
  from snoc.prems(1) obtain u v where uv: "(a @ b) @ [x] = u @ p @ v"
    by (auto simp: py_in_iff)
  have "v \<noteq> []"
  proof
    assume "v = []"
    with uv have "last p = x" using snoc.prems(2) by (metis append_Nil2 last_appendR last_snoc)
    then have "x \<in> set p" using snoc.prems(2) by (metis last_in_set)
    with snoc.prems(3) show False by simp
  qed
  then obtain v' where "v = v' @ [x]" using uv
    by (metis append_butlast_last_id last_appendR last_snoc append_assoc)
  with uv have "a @ b = u @ p @ v'" by simp
  then have "py_in p (a @ b)" by (auto simp: py_in_iff)
  with snoc show ?case by simp
qed







text \<open>
  Claim C5 (the corrector is idempotent on its own outputs) fails.  The reply
  \<open>SELECT pm FROM complaints ORDER BY pm DESC;\<close> is corrected to a query that ends in
  \<open>ORDER BY pm descriere LIMIT 150\<close>: the column-name repair completes the word DESC to
  the column \<open>descriere\<close> (a prefix of four letters), and the keyword repair of line 265,
  which is there to undo that, does not match before the semicolon.  The row cap then
  drops the semicolon and appends the LIMIT, so that on this output the keyword repair
  does match: a second run gives \<open>ORDER BY pm DESC LIMIT 150\<close>.
\<close>

theorem corrector_not_idempotent:
  "generate_sql_from VALID_COLUMNS (Reply (Some ''SELECT pm FROM complaints ORDER BY pm DESC;''))
     = (''SELECT pm FROM complaints ORDER BY pm descriere LIMIT 150'', None)
   \<and> generate_sql_from VALID_COLUMNS
         (Reply (Some ''SELECT pm FROM complaints ORDER BY pm descriere LIMIT 150''))
     = (''SELECT pm FROM complaints ORDER BY pm DESC LIMIT 150'', None)"
  by code_simp

section \<open>Properties of the query executor\<close>

text \<open>
  Claim C9, as amended.  Once the connection to the store is there (open already, or
  opened by the call), the query executor raises nothing to its caller: it returns the
  rows of the store as dictionaries and the column names with no error, or, when the
  store fails (at \<open>execute\<close>, at the description or at \<open>fetchall\<close>), an empty row list,
  an empty column list and the message of the fault.
\<close>

theorem execute_query_total:
  assumes "connection st = Some con \<or> (connection st = None \<and> connect = Inr con)"
  shows "(\<exists>rows columns err. execute_query connect st sql
            = (Inr (rows, columns, err), st\<lparr>connection := Some con\<rparr>)
          \<and> (err \<noteq> None \<longrightarrow> rows = [] \<and> columns = []))
       \<and> (con sql = Inr (Cursor (Some names) (Inr tuples)) \<longrightarrow>
            fst (execute_query connect st sql)
              = Inr (map (\<lambda>row. py_dict (zip names row)) tuples, names, None))
       \<and> (con sql = Inl e \<longrightarrow>
            fst (execute_query connect st sql) = Inr ([], [], Some (exc_str e)))
       \<and> (con sql = Inr (Cursor (Some names) (Inl e)) \<longrightarrow>
            fst (execute_query connect st sql) = Inr ([], [], Some (exc_str e)))
       \<and> (con sql = Inr (Cursor None f) \<longrightarrow>
            fst (execute_query connect st sql)
              = Inr ([], [], Some (exc_str none_not_iterable)))"
proof -
  from assms have g: "get_connection connect st = (Inr con, st\<lparr>connection := Some con\<rparr>)"
    by (auto simp: get_connection_def)
  then have x: "execute_query connect st sql
                  = (Inr (run_query con sql), st\<lparr>connection := Some con\<rparr>)"
    by (simp add: execute_query_def)
  have "\<exists>rows columns err. run_query con sql = (rows, columns, err)
          \<and> (err \<noteq> None \<longrightarrow> rows = [] \<and> columns = [])"
    by (auto simp: run_query_def split: sum.splits option.splits)
  with x show ?thesis
    by (auto simp: run_query_def)
qed

theorem execute_query_total_witness:
  "execute_query (Inr example_store) \<lparr>connection = None\<rparr> ''SELECT pm, raion FROM complaints LIMIT 150''
     = (Inr ([[(''pm'', VStr ''Ionescu''), (''raion'', VStr ''BUCATARII'')],
              [(''pm'', VStr ''Pop''), (''raion'', VStr ''ONLINE'')]], [''pm'', ''raion''], None),
        \<lparr>connection = Some example_store\<rparr>)
   \<and> fst (execute_query (Inl (PyExc ''IOException'' ''no file'')) \<lparr>connection = Some example_store\<rparr>
          ''SELEC'')
     = Inr ([], [], Some ''Parser Error: syntax error'')
   \<and> fst (execute_query (Inl (PyExc ''IOException'' ''no file'')) \<lparr>connection = Some example_store\<rparr>
          ''DROP TABLE complaints'')
     = Inr ([], [], Some (CHR 0x27 # ''NoneType'' @ CHR 0x27 # '' object is not iterable''))"
proof -
  let ?q = "''SELECT pm, raion FROM complaints LIMIT 150''"
  let ?e = "Inl (PyExc ''IOException'' ''no file'') :: py_exception + store"
  have a: "example_store ?q = Inr (Cursor (Some [''pm'', ''raion''])
                  (Inr [[VStr ''Ionescu'', VStr ''BUCATARII''], [VStr ''Pop'', VStr ''ONLINE'']]))"
    by (simp add: example_store_def)
  have b: "example_store ''SELEC'' = Inl (PyExc ''ParserException'' ''Parser Error: syntax error'')"
    by (simp add: example_store_def)
  have c: "example_store ''DROP TABLE complaints''
             = Inr (Cursor None (Inl (PyExc ''InvalidInputException'' ''no open result set'')))"
    by (simp add: example_store_def)
  show ?thesis
    using execute_query_total [of "\<lparr>connection = None\<rparr>" example_store "Inr example_store" ?q
        "[''pm'', ''raion'']" "[[VStr ''Ionescu'', VStr ''BUCATARII''], [VStr ''Pop'', VStr ''ONLINE'']]"]
      execute_query_total [of "\<lparr>connection = Some example_store\<rparr>" example_store ?e "''SELEC''"
        _ _ "PyExc ''ParserException'' ''Parser Error: syntax error''"]
      execute_query_total [of "\<lparr>connection = Some example_store\<rparr>" example_store ?e
        "''DROP TABLE complaints''" _ _ _ "Inl (PyExc ''InvalidInputException'' ''no open result set'')"]
      a b c
    by (auto simp: py_dict_def none_not_iterable_def)
qed

text \<open>
  With no connection yet and a store that cannot be opened, line 113 raises the fault
  of \<open>duckdb.connect\<close> to the caller: no row list and no message are returned.
\<close>

theorem execute_query_raises_counterexample:
  "execute_query (Inl (PyExc ''IOException'' ''IO Error: Could not set lock on file''))
       \<lparr>connection = None\<rparr> ''SELECT pm FROM complaints LIMIT 150''
     = (Inl (PyExc ''IOException'' ''IO Error: Could not set lock on file''),
        \<lparr>connection = None\<rparr>)"
  by (simp add: execute_query_def get_connection_def)

end
